theory Spec2Isabelle
  imports Complex_Main "HOL-Library.AList"
begin

section \<open>The Predictive Service client (dato/deploy/_client.py)\<close>

text \<open>
  A shallow embedding of the class \<open>PredictiveServiceClient\<close>. The module is Python 2
  (\<open>basestring\<close>, \<open>urllib.quote\<close>, \<open>ConfigParser\<close>), and the model follows
  Python 2 where the two languages differ (ordering of values of different types).

  The client object is a record of its attributes. The network is the environment: a
  server function answers each request, and every operation passes the list of the
  requests issued so far (the log) and returns it extended, so that "no request is
  issued" is a statement about the log. An exception is a value: each operation returns
  \<open>Inl\<close> of the exception raised or \<open>Inr\<close> of the value returned.
\<close>

subsection \<open>Python values\<close>

text \<open>
  The values that callers pass and that \<open>json.loads\<close> returns: \<open>None\<close>, booleans,
  the two integer types of Python 2 (\<open>PInt i\<close> is an \<open>int\<close>, \<open>PLong i\<close> is a \<open>long\<close>,
  as \<open>30L\<close> or any integer beyond \<open>sys.maxint\<close>), finite floats (by their value),
  strings (\<open>str\<close> and \<open>unicode\<close> are both \<open>basestring\<close> and are not told apart), lists,
  plain dicts with string keys, and instances of a subclass of \<open>dict\<close>
  (\<open>PDictSub cls d\<close>: an \<open>OrderedDict\<close> or a \<open>defaultdict\<close>, say, with the items \<open>d\<close>).
  A dict is an association list read with \<open>map_of\<close>. Instances of other subclasses
  and of user-defined classes are not represented.
\<close>

datatype pyval =
    PNone
  | PBool bool
  | PInt int
  | PLong int
  | PFloat real
  | PStr string
  | PList "pyval list"
  | PDict "(string \<times> pyval) list"
  | PDictSub string "(string \<times> pyval) list"

type_synonym pydict = "(string \<times> pyval) list"

text \<open>
  \<open>sys.maxint\<close> (of 64-bit CPython 2): an \<open>int\<close> object holds a value from
  \<open>-maxint - 1\<close> to \<open>maxint\<close>. An integer outside this range is a \<open>long\<close> in Python,
  whichever way it is written, and \<open>PInt i\<close> with such an \<open>i\<close> is treated as one.
\<close>

definition maxint :: int where
  "maxint = 2 ^ 63 - 1"

text \<open>\<open>isinstance(v, basestring)\<close>, \<open>isinstance(v, int)\<close> (\<open>bool\<close> is a subclass of
  \<open>int\<close>, \<open>long\<close> is not) and \<open>type(v) == dict\<close> (the exact type: false for an
  instance of a subclass).\<close>

fun isinstance_basestring :: "pyval \<Rightarrow> bool" where
  "isinstance_basestring (PStr s) = True"
| "isinstance_basestring v = False"

fun isinstance_int :: "pyval \<Rightarrow> bool" where
  "isinstance_int (PInt i) = (- maxint - 1 \<le> i \<and> i \<le> maxint)"
| "isinstance_int (PBool b) = True"
| "isinstance_int v = False"

fun type_is_dict :: "pyval \<Rightarrow> bool" where
  "type_is_dict (PDict d) = True"
| "type_is_dict v = False"

text \<open>Truth value of an object, as \<open>not v\<close> and \<open>if v\<close> test it.\<close>

fun truthy :: "pyval \<Rightarrow> bool" where
  "truthy PNone = False"
| "truthy (PBool b) = b"
| "truthy (PInt i) = (i \<noteq> 0)"
| "truthy (PLong i) = (i \<noteq> 0)"
| "truthy (PFloat r) = (r \<noteq> 0)"
| "truthy (PStr s) = (s \<noteq> [])"
| "truthy (PList xs) = (xs \<noteq> [])"
| "truthy (PDict d) = (d \<noteq> [])"
| "truthy (PDictSub cls d) = (d \<noteq> [])"

text \<open>
  \<open>v < n\<close> and \<open>v <= n\<close> for an integer \<open>n\<close>, in CPython 2: numbers compare by value,
  \<open>None\<close> is smaller than every other object, and an object that is not a number is
  larger than every number.
\<close>

fun py_lt_int :: "pyval \<Rightarrow> int \<Rightarrow> bool" where
  "py_lt_int PNone n = True"
| "py_lt_int (PBool b) n = ((if b then 1 else 0) < n)"
| "py_lt_int (PInt i) n = (i < n)"
| "py_lt_int (PLong i) n = (i < n)"
| "py_lt_int (PFloat r) n = (r < of_int n)"
| "py_lt_int v n = False"

fun py_le_int :: "pyval \<Rightarrow> int \<Rightarrow> bool" where
  "py_le_int PNone n = True"
| "py_le_int (PBool b) n = ((if b then 1 else 0) \<le> n)"
| "py_le_int (PInt i) n = (i \<le> n)"
| "py_le_int (PLong i) n = (i \<le> n)"
| "py_le_int (PFloat r) n = (r \<le> of_int n)"
| "py_le_int v n = False"

text \<open>Truth value of an optional string argument: \<open>None\<close> and \<open>''\<close> are false.\<close>

fun truthy_str :: "string option \<Rightarrow> bool" where
  "truthy_str None = False"
| "truthy_str (Some s) = (s \<noteq> [])"

subsection \<open>Formatting\<close>

text \<open>\<open>'%s' % i\<close> for an integer: its decimal digits, with a sign when negative.\<close>

definition digit_char :: "nat \<Rightarrow> char" where
  "digit_char d = ''0123456789'' ! (d mod 10)"

fun digits :: "nat \<Rightarrow> string" where
  "digits n = (if n < 10 then [digit_char n] else digits (n div 10) @ [digit_char (n mod 10)])"

declare digits.simps [simp del]

definition str_int :: "int \<Rightarrow> string" where
  "str_int i = (if i < 0 then CHR ''-'' # digits (nat (- i)) else digits (nat i))"

text \<open>
  \<open>urllib.quote(s)\<close> with its default \<open>safe = '/'\<close>: letters, digits and \<open>_.-/\<close> are
  kept, every other byte becomes \<open>%XX\<close> in upper-case hexadecimal.
\<close>

definition always_safe :: string where
  "always_safe = ''ABCDEFGHIJKLMNOPQRSTUVWXYZabcdefghijklmnopqrstuvwxyz0123456789_.-''"

definition hex_digit :: "nat \<Rightarrow> char" where
  "hex_digit d = ''0123456789ABCDEF'' ! (d mod 16)"

definition quote_char :: "char \<Rightarrow> string" where
  "quote_char c =
     (if c \<in> set (always_safe @ ''/'') then [c]
      else [CHR ''%'', hex_digit (of_char c div 16), hex_digit (of_char c mod 16)])"

definition quote :: "string \<Rightarrow> string" where
  "quote s = concat (map quote_char s)"

subsection \<open>Exceptions, requests and the environment\<close>

text \<open>
  The exceptions the module raises itself, each with its message, and
  \<open>LibraryError cls msg\<close> for an exception raised inside a library (\<open>requests\<close>,
  \<open>json\<close>, \<open>ConfigParser\<close>), named by its class.
\<close>

datatype exn =
    ValueError string
  | TypeError string
  | RuntimeError string
  | NonExistError string
  | LibraryError string string

text \<open>The keyword arguments of \<open>session.post\<close>; \<open>post_data\<close> is the dict that
  \<open>json.dumps\<close> serialises into the body.\<close>

record post_args =
  post_url :: string
  post_data :: pydict
  post_headers :: "(string \<times> string) list"
  post_verify :: bool
  post_timeout :: pyval
  post_auth :: "string \<times> string"

text \<open>\<open>Get url verify\<close> is \<open>session.get(url, verify=verify)\<close>.\<close>

datatype request = Get string bool | Post post_args

record response =
  status_code :: int
  resp_text :: string

text \<open>The parsed configuration file, as the \<open>ConfigParser\<close> methods show it.\<close>

record config_parser =
  cfg_sections :: "string list"
  cfg_get :: "string \<Rightarrow> string \<Rightarrow> exn + string"
  cfg_has_option :: "string \<Rightarrow> string \<Rightarrow> bool"
  cfg_getboolean :: "string \<Rightarrow> string \<Rightarrow> exn + bool"

text \<open>
  What the client does not control: the server's answer to a request (a response, or an
  exception of the HTTP library) given the requests before it, \<open>json.loads\<close>, and the
  file system (\<open>os.path.abspath(os.path.expanduser(p))\<close>, \<open>os.path.isfile\<close>, and
  reading a configuration file).
\<close>

record env =
  server :: "request list \<Rightarrow> request \<Rightarrow> exn + response"
  json_loads :: "string \<Rightarrow> exn + pyval"
  abspath_expanduser :: "string \<Rightarrow> string"
  isfile :: "string \<Rightarrow> bool"
  config_read :: "string \<Rightarrow> exn + config_parser"

subsection \<open>The client\<close>

record client =
  endpoint :: string
  api_key :: string
  should_verify_certificate :: bool
  query_timeout :: pyval
  schema_version :: pyval

definition SERVICE_INFO_SECTION_NAME :: string where
  "SERVICE_INFO_SECTION_NAME = ''Service Info''"

text \<open>
  \<open>_read_config\<close>: the three attributes it assigns, or the exception. A failing
  \<open>config.read\<close>, \<open>config.get\<close> or \<open>config.getboolean\<close> raises the library's
  exception.
\<close>

definition read_config :: "env \<Rightarrow> string \<Rightarrow> exn + (string \<times> string \<times> bool)" where
  "read_config e config_file =
     (let path = abspath_expanduser e config_file in
      if \<not> isfile e path then
        Inl (RuntimeError (''Path '' @ [CHR 0x27] @ path @ [CHR 0x27] @ '' is not a file.''))
      else
        (case config_read e path of
           Inl x \<Rightarrow> Inl x
         | Inr config \<Rightarrow>
             if SERVICE_INFO_SECTION_NAME \<notin> set (cfg_sections config) then
               Inl (RuntimeError (''Cannot find '' @ SERVICE_INFO_SECTION_NAME
                                   @ '' section in config file '' @ path))
             else
               (case cfg_get config SERVICE_INFO_SECTION_NAME ''endpoint'' of
                  Inl x \<Rightarrow> Inl x
                | Inr ep \<Rightarrow>
                    (case cfg_get config SERVICE_INFO_SECTION_NAME ''api key'' of
                       Inl x \<Rightarrow> Inl x
                     | Inr k \<Rightarrow>
                         if cfg_has_option config SERVICE_INFO_SECTION_NAME ''verify certificate'' then
                           (case cfg_getboolean config SERVICE_INFO_SECTION_NAME ''verify certificate'' of
                              Inl x \<Rightarrow> Inl x
                            | Inr b \<Rightarrow> Inr (ep, k, b))
                         else Inr (ep, k, False)))))"

text \<open>\<open>_ping\<close> reads \<open>self.endpoint\<close> and \<open>self.should_verify_certificate\<close>, the
  attributes set when \<open>__init__\<close> calls it.\<close>

definition ping :: "env \<Rightarrow> string \<Rightarrow> bool \<Rightarrow> request list \<Rightarrow> (exn + string) \<times> request list" where
  "ping e ep verify sent =
     (let req = Get ep verify in
      (case server e sent req of
         Inl x \<Rightarrow> Inl x
       | Inr response \<Rightarrow>
           if status_code response = 200 then Inr (resp_text response)
           else Inl (RuntimeError (''Error responding from service: response: '' @ resp_text response)),
       sent @ [req]))"

text \<open>
  The \<open>try\<close> block of \<open>__init__\<close>: the value of \<open>json.loads(res).get('schema_version', -1)\<close>,
  or \<open>-1\<close> for any exception (of \<open>_ping\<close>, of \<open>json.loads\<close>, or the AttributeError of
  \<open>.get\<close> on a value that is not a dict). \<open>json.loads\<close> builds a JSON object as a plain
  dict.
\<close>

definition detect_schema_version :: "env \<Rightarrow> (exn + string) \<Rightarrow> pyval" where
  "detect_schema_version e r =
     (case r of
        Inl x \<Rightarrow> PInt (- 1)
      | Inr res \<Rightarrow>
          (case json_loads e res of
             Inl x \<Rightarrow> PInt (- 1)
           | Inr (PDict d) \<Rightarrow> (case map_of d ''schema_version'' of Some v \<Rightarrow> v | None \<Rightarrow> PInt (- 1))
           | Inr v \<Rightarrow> PInt (- 1)))"

text \<open>
  \<open>__init__(endpoint, api_key, should_verify_certificate, config_file)\<close>, each argument
  \<open>None\<close> or a value of its documented type.
\<close>

definition missing_arguments :: exn where
  "missing_arguments = ValueError ''Either 'config_file' or ('endpoint' and 'api_key') pair need to be provided to initialize PredictiveServiceClient.''"

fun direct_config :: "string option \<Rightarrow> string option \<Rightarrow> bool option \<Rightarrow> exn + (string \<times> string \<times> bool)" where
  "direct_config (Some ep) (Some k) verify' =
     (if ep = [] \<or> k = [] then Inl missing_arguments
      else Inr (ep, k, (case verify' of None \<Rightarrow> False | Some b \<Rightarrow> b)))"
| "direct_config endpoint' api_key' verify' = Inl missing_arguments"

definition resolve_config ::
  "env \<Rightarrow> string option \<Rightarrow> string option \<Rightarrow> bool option \<Rightarrow> string option
     \<Rightarrow> exn + (string \<times> string \<times> bool)" where
  "resolve_config e endpoint' api_key' verify' config_file =
     (case config_file of
        Some f \<Rightarrow> if f \<noteq> [] then read_config e f else direct_config endpoint' api_key' verify'
      | None \<Rightarrow> direct_config endpoint' api_key' verify')"

definition init ::
  "env \<Rightarrow> string option \<Rightarrow> string option \<Rightarrow> bool option \<Rightarrow> string option \<Rightarrow> request list
     \<Rightarrow> (exn + client) \<times> request list" where
  "init e endpoint' api_key' verify' config_file sent =
     (case resolve_config e endpoint' api_key' verify' config_file of
        Inl x \<Rightarrow> (Inl x, sent)
      | Inr (ep, k, verify) \<Rightarrow>
          (let (res, sent') = ping e ep verify sent in
           (Inr \<lparr> endpoint = ep, api_key = k, should_verify_certificate = verify,
                   query_timeout = PInt 10,
                   schema_version = detect_schema_version e res \<rparr>, sent')))"

text \<open>\<open>set_query_timeout\<close> returns the client as the call leaves it, also when it
  raises.\<close>

definition set_query_timeout :: "client \<Rightarrow> pyval \<Rightarrow> (exn + unit) \<times> client" where
  "set_query_timeout self timeout =
     (if py_le_int timeout 0 \<or> \<not> isinstance_int timeout then
        (Inl (ValueError (''\"timeout\" value has to be a positive integer in seconds.'')), self)
      else (Inr (), self\<lparr> query_timeout := timeout \<rparr>))"

text \<open>\<open>_post(path, data, timeout)\<close>; the result is what \<open>session.post\<close> returns or
  raises.\<close>

definition post ::
  "env \<Rightarrow> client \<Rightarrow> string \<Rightarrow> pydict option \<Rightarrow> pyval \<Rightarrow> request list
     \<Rightarrow> (exn + response) \<times> request list" where
  "post e self path data timeout sent =
     (let data1 = (case data of None \<Rightarrow> [] | Some d \<Rightarrow> d);
          data2 = (if py_lt_int (schema_version self) 7
                   then AList.update ''api_key'' (PStr (api_key self)) data1 else data1);
          headers = [(''content-type'', ''application/json'')];
          url = endpoint self @ ''/'' @ path;
          timeout1 = (if \<not> truthy timeout \<or> \<not> isinstance_int timeout then PInt 10 else timeout);
          req = Post \<lparr> post_url = url, post_data = data2, post_headers = headers,
                       post_verify = should_verify_certificate self, post_timeout = timeout1,
                       post_auth = (''api_key'', api_key self) \<rparr>
      in (server e sent req, sent @ [req]))"

text \<open>\<open>query(uri, **kwargs)\<close>; \<open>response.json()\<close> is \<open>json.loads\<close> of the body text.\<close>

definition query ::
  "env \<Rightarrow> client \<Rightarrow> pyval \<Rightarrow> pydict \<Rightarrow> request list \<Rightarrow> (exn + pyval) \<times> request list" where
  "query e self uri kwargs sent =
     (case uri of
        PStr s \<Rightarrow>
          (let uri1 = quote s;
               internal_data = [(''data'', PDict kwargs)];
               (r, sent') = post e self (''query/'' @ uri1) (Some internal_data) (query_timeout self) sent
           in (case r of
                 Inl x \<Rightarrow> (Inl x, sent')
               | Inr response \<Rightarrow>
                   if status_code response = 200 then (json_loads e (resp_text response), sent')
                   else if status_code response = 404 then
                     (Inl (NonExistError (''Predictive Object '' @ [CHR 0x27] @ uri1 @ [CHR 0x27]
                                            @ '' cannot be found'')), sent')
                   else
                     (Inl (RuntimeError (''Query error status: '' @ str_int (status_code response)
                                           @ '', error: '' @ resp_text response)), sent')))
      | _ \<Rightarrow> (Inl (TypeError (CHR 0x27 # ''uri' has to be a string or unicode'')), sent))"

text \<open>\<open>feedback(key, data)\<close> returns what \<open>_post\<close> returns: the response object.\<close>

definition feedback ::
  "env \<Rightarrow> client \<Rightarrow> pyval \<Rightarrow> pyval \<Rightarrow> request list \<Rightarrow> (exn + response) \<times> request list" where
  "feedback e self key data sent =
     (if \<not> isinstance_basestring key then
        (Inl (RuntimeError ''Expect key to be a string or unicode''), sent)
      else if \<not> type_is_dict data then
        (Inl (RuntimeError ''Feedback 'data' needs to be dictionary type''), sent)
      else post e self ''feedback'' (Some [(''data'', data), (''id'', key)]) PNone sent)"

subsection \<open>A caller's session\<close>

text \<open>
  The calls a caller can make on a constructed client, and the client and the log after
  a sequence of them, whatever each call returns or raises. Only \<open>set_query_timeout\<close>
  assigns an attribute.
\<close>

datatype call =
    SetQueryTimeout pyval
  | Query pyval pydict
  | Feedback pyval pyval

fun step :: "env \<Rightarrow> client \<times> request list \<Rightarrow> call \<Rightarrow> client \<times> request list" where
  "step e (self, sent) (SetQueryTimeout timeout) = (snd (set_query_timeout self timeout), sent)"
| "step e (self, sent) (Query uri kwargs) = (self, snd (query e self uri kwargs sent))"
| "step e (self, sent) (Feedback key data) = (self, snd (feedback e self key data sent))"

text \<open>The calls that assign an attribute of the client.\<close>

fun assigns :: "call \<Rightarrow> bool" where
  "assigns (SetQueryTimeout timeout) = True"
| "assigns c = False"

definition run :: "env \<Rightarrow> client \<times> request list \<Rightarrow> call list \<Rightarrow> client \<times> request list" where
  "run e st calls = foldl (step e) st calls"

subsection \<open>The specification's words\<close>

text \<open>
  "A positive integer" as the timeout check of the code has it: an instance of \<open>int\<close>
  whose value is greater than zero (\<open>True\<close> is the integer 1; a \<open>long\<close> is no instance
  of \<open>int\<close>).
\<close>

fun positive_integer :: "pyval \<Rightarrow> bool" where
  "positive_integer (PInt i) = (0 < i \<and> i \<le> maxint)"
| "positive_integer (PBool b) = b"
| "positive_integer v = False"

text \<open>
  "A positive integer" in the specification's words, whatever the Python type that holds
  it: an \<open>int\<close> or a \<open>long\<close> greater than zero.
\<close>

fun positive_int_or_long :: "pyval \<Rightarrow> bool" where
  "positive_int_or_long (PInt i) = (0 < i)"
| "positive_int_or_long (PLong i) = (0 < i)"
| "positive_int_or_long (PBool b) = b"
| "positive_int_or_long v = False"

text \<open>"A mapping" in the specification's words: a dict or an instance of a subclass of
  it.\<close>

fun is_mapping :: "pyval \<Rightarrow> bool" where
  "is_mapping (PDict d) = True"
| "is_mapping (PDictSub cls d) = True"
| "is_mapping v = False"

text \<open>The body has an entry for a key.\<close>

definition has_key :: "pydict \<Rightarrow> string \<Rightarrow> bool" where
  "has_key d k = (map_of d k \<noteq> None)"

subsection \<open>A mock service\<close>

text \<open>
  An environment for concrete runs: a server that answers every request with one status
  and body, a \<open>json.loads\<close> that knows the bodies used below and raises on any other
  text, and a file system with no file.
\<close>

definition mock_loads :: "string \<Rightarrow> exn + pyval" where
  "mock_loads s =
     (if s = ''{\"ack\": true}'' then Inr (PDict [(''ack'', PBool True)])
      else if s = ''{\"schema_version\": 5}'' then Inr (PDict [(''schema_version'', PInt 5)])
      else if s = ''{\"schema_version\": 9}'' then Inr (PDict [(''schema_version'', PInt 9)])
      else if s = ''{}'' then Inr (PDict [])
      else Inl (LibraryError ''ValueError'' ''No JSON object could be decoded''))"

definition mock_env :: "int \<Rightarrow> string \<Rightarrow> env" where
  "mock_env status body =
     \<lparr> server = (\<lambda>sent req. Inr \<lparr> status_code = status, resp_text = body \<rparr>),
       json_loads = mock_loads,
       abspath_expanduser = (\<lambda>p. p),
       isfile = (\<lambda>p. False),
       config_read = (\<lambda>p. Inl (LibraryError ''IOError'' p)) \<rparr>"

text \<open>A server that cannot be reached.\<close>

definition down_env :: env where
  "down_env = (mock_env 200 [])\<lparr> server := (\<lambda>sent req. Inl (LibraryError ''ConnectionError'' [])) \<rparr>"

text \<open>A parsed configuration file with the given sections and no option, and a file
  system where every path is a file with that content.\<close>

definition mock_config :: "string list \<Rightarrow> config_parser" where
  "mock_config names =
     \<lparr> cfg_sections = names,
       cfg_get = (\<lambda>section option. Inl (LibraryError ''NoOptionError'' option)),
       cfg_has_option = (\<lambda>section option. False),
       cfg_getboolean = (\<lambda>section option. Inl (LibraryError ''NoOptionError'' option)) \<rparr>"

definition file_env :: "config_parser \<Rightarrow> env" where
  "file_env config = (mock_env 200 [])\<lparr> isfile := (\<lambda>p. True), config_read := (\<lambda>p. Inr config) \<rparr>"

definition mock_client :: "pyval \<Rightarrow> client" where
  "mock_client version =
     \<lparr> endpoint = ''http://svc'', api_key = ''K'', should_verify_certificate = False,
       query_timeout = PInt 10, schema_version = version \<rparr>"

section \<open>Auxiliary facts\<close>

text \<open>What \<open>_post\<close> sends, and that \<open>query\<close> and \<open>feedback\<close> send just that.\<close>

lemma snd_post_eq:
  "snd (post e self path (Some d0) t sent) =
     sent @ [Post \<lparr> post_url = endpoint self @ ''/'' @ path,
                     post_data = (if py_lt_int (schema_version self) 7
                                  then AList.update ''api_key'' (PStr (api_key self)) d0 else d0),
                     post_headers = [(''content-type'', ''application/json'')],
                     post_verify = should_verify_certificate self,
                     post_timeout = (if \<not> truthy t \<or> \<not> isinstance_int t then PInt 10 else t),
                     post_auth = (''api_key'', api_key self) \<rparr>]"
  by (simp add: post_def Let_def)

lemma snd_query:
  "snd (query e self (PStr s) kwargs sent) =
     snd (post e self (''query/'' @ quote s) (Some [(''data'', PDict kwargs)]) (query_timeout self) sent)"
  by (simp add: query_def Let_def split: prod.splits sum.splits)

lemma snd_feedback:
  "snd (feedback e self (PStr k) (PDict d) sent) =
     snd (post e self ''feedback'' (Some [(''data'', PDict d), (''id'', PStr k)]) PNone sent)"
  by (simp add: feedback_def)

text \<open>The check of \<open>set_query_timeout\<close> is the specification's "positive integer".\<close>

lemma positive_integer_iff:
  "positive_integer t = (\<not> (py_le_int t 0 \<or> \<not> isinstance_int t))"
  by (cases t) (auto simp: maxint_def)

lemma positive_integer_timeout:
  "positive_integer t \<Longrightarrow> truthy t \<and> isinstance_int t"
  by (cases t) (auto simp: maxint_def)

lemma set_query_timeout_ok:
  "positive_integer t \<Longrightarrow> set_query_timeout self t = (Inr (), self\<lparr> query_timeout := t \<rparr>)"
  by (simp add: set_query_timeout_def positive_integer_iff)

lemma set_query_timeout_fails:
  "\<not> positive_integer t \<Longrightarrow>
     set_query_timeout self t =
       (Inl (ValueError ''\"timeout\" value has to be a positive integer in seconds.''), self)"
  by (simp add: set_query_timeout_def positive_integer_iff)

lemma step_keeps_timeout:
  "\<not> assigns c \<Longrightarrow> fst (step e (self, sent) c) = self"
  by (cases c) simp_all

lemma run_keeps_client:
  "list_all (\<lambda>c. \<not> assigns c) calls \<Longrightarrow> fst (run e (self, sent) calls) = self"
  unfolding run_def
proof (induction calls arbitrary: sent)
  case Nil
  then show ?case by simp
next
  case (Cons c calls)
  obtain self' sent' where st: "step e (self, sent) c = (self', sent')"
    by (cases "step e (self, sent) c")
  from Cons.prems have "\<not> assigns c" by simp
  then have "self' = self" using step_keeps_timeout [of c e self sent] st by simp
  with Cons st show ?case by simp
qed

text \<open>The timeout stays a positive integer along a session.\<close>

lemma step_invariant:
  assumes "positive_integer (query_timeout self)"
  shows "positive_integer (query_timeout (fst (step e (self, sent) c)))"
proof (cases c)
  case (SetQueryTimeout t)
  with assms show ?thesis
    by (cases "positive_integer t") (simp_all add: set_query_timeout_ok set_query_timeout_fails)
qed (simp_all add: assms)

lemma run_invariant:
  "positive_integer (query_timeout (fst st)) \<Longrightarrow>
     positive_integer (query_timeout (fst (run e st calls)))"
  unfolding run_def
proof (induction calls arbitrary: st)
  case Nil
  then show ?case by simp
next
  case (Cons c calls)
  obtain self sent where st: "st = (self, sent)" by (cases st)
  with Cons.prems have "positive_integer (query_timeout (fst (step e st c)))"
    by (simp add: step_invariant)
  then show ?case using Cons.IH by simp
qed

lemma init_query_timeout:
  "fst (init e endpoint' api_key' verify' config_file sent) = Inr c \<Longrightarrow> query_timeout c = PInt 10"
  by (auto simp: init_def Let_def split: sum.splits prod.splits)

text \<open>What \<open>_ping\<close> returns, and construction once the configuration is resolved.\<close>

lemma fst_ping:
  "fst (ping e ep v sent) =
     (case server e sent (Get ep v) of
        Inl x \<Rightarrow> Inl x
      | Inr r \<Rightarrow> if status_code r = 200 then Inr (resp_text r)
                 else Inl (RuntimeError (''Error responding from service: response: '' @ resp_text r)))"
  by (simp add: ping_def Let_def)

lemma init_valid:
  "resolve_config e endpoint' api_key' verify' config_file = Inr (ep, k, v) \<Longrightarrow>
     init e endpoint' api_key' verify' config_file sent =
       (Inr \<lparr> endpoint = ep, api_key = k, should_verify_certificate = v, query_timeout = PInt 10,
               schema_version = detect_schema_version e (fst (ping e ep v sent)) \<rparr>,
        sent @ [Get ep v])"
  by (simp add: init_def ping_def Let_def)

section \<open>Properties\<close>

subsection \<open>Argument validation of \<open>query\<close>\<close>

text \<open>
  C7. For every \<open>uri\<close> that is not a string (the integer 123, say), \<open>query\<close> raises
  the TypeError of its first check (the specification's InvalidArgument) and the log of
  requests is the one it was given: no HTTP request is issued.
\<close>

theorem query_non_string_uri:
  "\<not> isinstance_basestring uri \<Longrightarrow>
     query e self uri kwargs sent =
       (Inl (TypeError (CHR 0x27 # ''uri' has to be a string or unicode'')), sent)"
  by (cases uri) (simp_all add: query_def)

theorem query_non_string_uri_witness:
  "\<not> isinstance_basestring (PInt 123) \<and>
   query (mock_env 200 ''{}'') (mock_client (PInt 5)) (PInt 123) [(''method'', PStr ''predict'')] []
     = (Inl (TypeError (CHR 0x27 # ''uri' has to be a string or unicode'')), [])"
  using query_non_string_uri [of "PInt 123" "mock_env 200 ''{}''" "mock_client (PInt 5)"
      "[(''method'', PStr ''predict'')]" "[]"]
  by simp

subsection \<open>Status codes of \<open>query\<close>\<close>

text \<open>
  C4. For every string \<open>uri\<close>, when the POST of \<open>query\<close> comes back with a response:
  on status 200 the call returns the body parsed as JSON (the result of \<open>json.loads\<close> on
  the body text); on status 404 it raises NonExistError (the specification's
  NotFoundError); on every other status it raises the RuntimeError (the specification's
  RequestError) whose message holds the status code and the response text.
\<close>

theorem query_status_mapping:
  assumes "post e self (''query/'' @ quote s) (Some [(''data'', PDict kwargs)]) (query_timeout self) sent
             = (Inr r, sent')"
  shows "(status_code r = 200 \<longrightarrow>
            query e self (PStr s) kwargs sent = (json_loads e (resp_text r), sent'))
       \<and> (status_code r = 404 \<longrightarrow>
            (\<exists>m. query e self (PStr s) kwargs sent = (Inl (NonExistError m), sent')))
       \<and> (status_code r \<noteq> 200 \<and> status_code r \<noteq> 404 \<longrightarrow>
            query e self (PStr s) kwargs sent =
              (Inl (RuntimeError (''Query error status: '' @ str_int (status_code r)
                                    @ '', error: '' @ resp_text r)), sent'))"
  using assms by (simp add: query_def Let_def)

theorem query_status_mapping_witness:
  "post (mock_env 500 ''boom'') (mock_client (PInt 9)) (''query/'' @ quote ''x'') (Some [(''data'', PDict [])])
       (query_timeout (mock_client (PInt 9))) []
     = (Inr \<lparr> status_code = 500, resp_text = ''boom'' \<rparr>,
        snd (post (mock_env 500 ''boom'') (mock_client (PInt 9)) (''query/'' @ quote ''x'') (Some [(''data'', PDict [])])
       (query_timeout (mock_client (PInt 9))) []))
   \<and> fst (query (mock_env 500 ''boom'') (mock_client (PInt 9)) (PStr ''x'') [] [])
        = Inl (RuntimeError ''Query error status: 500, error: boom'')"
proof -
  have h: "post (mock_env 500 ''boom'') (mock_client (PInt 9)) (''query/'' @ quote ''x'') (Some [(''data'', PDict [])])
       (query_timeout (mock_client (PInt 9))) []
     = (Inr \<lparr> status_code = 500, resp_text = ''boom'' \<rparr>,
        snd (post (mock_env 500 ''boom'') (mock_client (PInt 9)) (''query/'' @ quote ''x'') (Some [(''data'', PDict [])])
       (query_timeout (mock_client (PInt 9))) []))"
    by (simp add: post_def Let_def mock_env_def)
  have d: "str_int 500 = ''500''" by code_simp
  show ?thesis using h query_status_mapping [OF h] by (simp add: d)
qed

subsection \<open>Argument validation of \<open>feedback\<close>\<close>

text \<open>
  C8, as stated, fails: \<open>feedback('id1', OrderedDict([('k', 'v')]))\<close> has a string key
  and a mapping as data, and raises the RuntimeError of the second argument check with no
  request sent: the check is \<open>type(data) != dict\<close>, which an instance of a subclass of
  \<open>dict\<close> does not pass.
\<close>

theorem feedback_mapping_counterexample:
  "isinstance_basestring (PStr ''id1'')
   \<and> is_mapping (PDictSub ''OrderedDict'' [(''k'', PStr ''v'')])
   \<and> feedback (mock_env 200 ''{}'') (mock_client (PInt 5)) (PStr ''id1'')
         (PDictSub ''OrderedDict'' [(''k'', PStr ''v'')]) []
       = (Inl (RuntimeError ''Feedback 'data' needs to be dictionary type''), [])"
  by (simp add: feedback_def)

text \<open>
  C8, amended. \<open>feedback\<close> raises the RuntimeError of its argument checks (the
  specification's InvalidArgument), with no request sent, if and only if \<open>key\<close> is not a
  string or \<open>data\<close> is not exactly a dict (its type is \<open>dict\<close> itself, not a subclass);
  for every string key and every plain dict the checks pass and the call is the POST to
  \<open>feedback\<close>.
\<close>

theorem feedback_validation:
  "((\<exists>m. feedback e self key data sent = (Inl (RuntimeError m), sent))
      = (\<not> isinstance_basestring key \<or> \<not> type_is_dict data))
   \<and> (isinstance_basestring key \<and> type_is_dict data \<longrightarrow>
        feedback e self key data sent
          = post e self ''feedback'' (Some [(''data'', data), (''id'', key)]) PNone sent)"
proof -
  have "feedback e self key data sent \<noteq> (Inl (RuntimeError m), sent)"
    if "isinstance_basestring key" "type_is_dict data" for m
  proof
    assume "feedback e self key data sent = (Inl (RuntimeError m), sent)"
    with that have "snd (post e self ''feedback'' (Some [(''data'', data), (''id'', key)]) PNone sent) = sent"
      by (simp add: feedback_def)
    then show False by (simp add: post_def Let_def)
  qed
  then show ?thesis by (auto simp: feedback_def)
qed

theorem feedback_validation_witness:
  "isinstance_basestring (PStr ''id1'') \<and> type_is_dict (PDict [(''k'', PStr ''v'')])
   \<and> feedback (mock_env 200 ''{}'') (mock_client (PInt 5)) (PStr ''id1'') (PDict [(''k'', PStr ''v'')]) []
       = post (mock_env 200 ''{}'') (mock_client (PInt 5)) ''feedback''
           (Some [(''data'', PDict [(''k'', PStr ''v'')]), (''id'', PStr ''id1'')]) PNone []
   \<and> \<not> (\<exists>m. feedback (mock_env 200 ''{}'') (mock_client (PInt 5)) (PStr ''id1'')
                 (PDict [(''k'', PStr ''v'')]) [] = (Inl (RuntimeError m), []))"
proof -
  have v: "isinstance_basestring (PStr ''id1'') \<and> type_is_dict (PDict [(''k'', PStr ''v'')])"
    by simp
  with feedback_validation [of "mock_env 200 ''{}''" "mock_client (PInt 5)" "PStr ''id1''"
      "PDict [(''k'', PStr ''v'')]" "[]"]
  show ?thesis by blast
qed

subsection \<open>The API key in the body\<close>

text \<open>
  C3. For every \<open>query\<close> and \<open>feedback\<close> call that passes its argument checks, the
  dict serialised into the POSTed body has an \<open>api_key\<close> entry if and only if the cached
  schema version is less than 7 (for an integer version \<open>n\<close>: \<open>n < 7\<close>; the default
  \<open>-1\<close> is below 7); at 7 or more the body has no such entry.
\<close>

theorem api_key_in_body:
  "(\<exists>r. snd (query e self (PStr s) kwargs sent) = sent @ [Post r]
        \<and> has_key (post_data r) ''api_key'' = py_lt_int (schema_version self) 7)
   \<and> (\<exists>r. snd (feedback e self (PStr k) (PDict d) sent) = sent @ [Post r]
        \<and> has_key (post_data r) ''api_key'' = py_lt_int (schema_version self) 7)
   \<and> (\<forall>n. schema_version self = PInt n \<longrightarrow> py_lt_int (schema_version self) 7 = (n < 7))
   \<and> py_lt_int (PInt (- 1)) 7"
  by (simp add: snd_query snd_feedback snd_post_eq has_key_def)

theorem api_key_in_body_witness:
  "schema_version (mock_client (PInt 5)) = PInt 5 \<and> (5::int) < 7
   \<and> (\<exists>r. snd (query (mock_env 200 ''{}'') (mock_client (PInt 5)) (PStr ''m'') [] []) = [] @ [Post r]
        \<and> has_key (post_data r) ''api_key'')
   \<and> (\<exists>r. snd (feedback (mock_env 200 ''{}'') (mock_client (PInt 5)) (PStr ''id1'') (PDict []) []) = [] @ [Post r]
        \<and> has_key (post_data r) ''api_key'')
   \<and> schema_version (mock_client (PInt 9)) = PInt 9 \<and> \<not> (9::int) < 7
   \<and> (\<exists>r. snd (query (mock_env 200 ''{}'') (mock_client (PInt 9)) (PStr ''m'') [] []) = [] @ [Post r]
        \<and> \<not> has_key (post_data r) ''api_key'')
   \<and> (\<exists>r. snd (feedback (mock_env 200 ''{}'') (mock_client (PInt 9)) (PStr ''id1'') (PDict []) []) = [] @ [Post r]
        \<and> \<not> has_key (post_data r) ''api_key'')"
proof -
  have v5: "schema_version (mock_client (PInt 5)) = PInt 5 \<and> (5::int) < 7"
    by (simp add: mock_client_def)
  have v9: "schema_version (mock_client (PInt 9)) = PInt 9 \<and> \<not> (9::int) < 7"
    by (simp add: mock_client_def)
  from v5 api_key_in_body [of "mock_env 200 ''{}''" "mock_client (PInt 5)" "''m''" "[]" "[]" "''id1''" "[]"]
  have a: "(\<exists>r. snd (query (mock_env 200 ''{}'') (mock_client (PInt 5)) (PStr ''m'') [] []) = [] @ [Post r]
        \<and> has_key (post_data r) ''api_key'')
     \<and> (\<exists>r. snd (feedback (mock_env 200 ''{}'') (mock_client (PInt 5)) (PStr ''id1'') (PDict []) []) = [] @ [Post r]
        \<and> has_key (post_data r) ''api_key'')"
    by simp
  from v9 api_key_in_body [of "mock_env 200 ''{}''" "mock_client (PInt 9)" "''m''" "[]" "[]" "''id1''" "[]"]
  have b: "(\<exists>r. snd (query (mock_env 200 ''{}'') (mock_client (PInt 9)) (PStr ''m'') [] []) = [] @ [Post r]
        \<and> \<not> has_key (post_data r) ''api_key'')
     \<and> (\<exists>r. snd (feedback (mock_env 200 ''{}'') (mock_client (PInt 9)) (PStr ''id1'') (PDict []) []) = [] @ [Post r]
        \<and> \<not> has_key (post_data r) ''api_key'')"
    by simp
  from v5 v9 a b show ?thesis by blast
qed

text \<open>
  C2, as stated, fails: with schema version 5 and API key \<open>K\<close>,
  \<open>query('m', method='predict')\<close> posts the body
  \<open>{"data": {"method": "predict"}, "api_key": "K"}\<close>; the \<open>data\<close> object has no
  \<open>api_key\<close> entry.
\<close>

theorem query_body_counterexample:
  "snd (query (mock_env 200 ''{}'') (mock_client (PInt 5)) (PStr ''m'') [(''method'', PStr ''predict'')] [])
     = [Post \<lparr> post_url = ''http://svc/query/m'',
                 post_data = [(''data'', PDict [(''method'', PStr ''predict'')]), (''api_key'', PStr ''K'')],
                 post_headers = [(''content-type'', ''application/json'')],
                 post_verify = False, post_timeout = PInt 10,
                 post_auth = (''api_key'', ''K'') \<rparr>]
   \<and> \<not> has_key [(''method'', PStr ''predict'')] ''api_key''"
  by (simp add: snd_query snd_post_eq has_key_def mock_client_def quote_def quote_char_def always_safe_def)

text \<open>
  C2, amended. For every \<open>query(uri, params)\<close> call with a string \<open>uri\<close> made while the
  cached schema version is below 7, the request goes to
  \<open><endpoint>/query/<url-encoded-uri>\<close> and its body is
  \<open>{"data": {...params...}, "api_key": <key>}\<close>: the \<open>api_key\<close> entry is a top-level
  entry of the body, beside \<open>data\<close>, and the \<open>data\<close> object is exactly the params.
\<close>

theorem query_body_shape:
  "py_lt_int (schema_version self) 7 \<Longrightarrow>
     \<exists>r. snd (query e self (PStr s) kwargs sent) = sent @ [Post r]
       \<and> post_url r = endpoint self @ ''/query/'' @ quote s
       \<and> post_data r = [(''data'', PDict kwargs), (''api_key'', PStr (api_key self))]"
  by (simp add: snd_query snd_post_eq)

theorem query_body_shape_witness:
  "py_lt_int (schema_version (mock_client (PInt 5))) 7 \<and>
     (\<exists>r. snd (query (mock_env 200 ''{}'') (mock_client (PInt 5)) (PStr ''m'') [(''method'', PStr ''predict'')] []) = [] @ [Post r]
       \<and> post_url r = endpoint (mock_client (PInt 5)) @ ''/query/'' @ quote ''m''
       \<and> post_data r = [(''data'', PDict [(''method'', PStr ''predict'')]), (''api_key'', PStr (api_key (mock_client (PInt 5))))])"
proof -
  have h: "py_lt_int (schema_version (mock_client (PInt 5))) 7" by (simp add: mock_client_def)
  show ?thesis using h query_body_shape [OF h] by blast
qed

subsection \<open>The query timeout\<close>

text \<open>
  C6, as stated, fails: \<open>set_query_timeout(30L)\<close> and \<open>set_query_timeout(2**63)\<close> are
  given a positive integer and raise ValueError, leaving the timeout as it was: both
  values are of type \<open>long\<close>, and the check asks for \<open>isinstance(timeout, int)\<close>.
\<close>

theorem set_query_timeout_long_counterexample:
  "positive_int_or_long (PLong 30)
   \<and> set_query_timeout (mock_client (PInt 9)) (PLong 30)
       = (Inl (ValueError ''\"timeout\" value has to be a positive integer in seconds.''),
          mock_client (PInt 9))
   \<and> positive_int_or_long (PInt (2 ^ 63))
   \<and> set_query_timeout (mock_client (PInt 9)) (PInt (2 ^ 63))
       = (Inl (ValueError ''\"timeout\" value has to be a positive integer in seconds.''),
          mock_client (PInt 9))"
  by (simp add: set_query_timeout_def maxint_def)

text \<open>
  C6, amended. \<open>set_query_timeout(seconds)\<close> raises ValueError (the specification's
  InvalidArgument) if and only if \<open>seconds\<close> is not an instance of \<open>int\<close> with a value
  greater than zero (a \<open>long\<close> is not an instance of \<open>int\<close>); 0 and -5 fail and 30
  succeeds; after a successful call, every \<open>query\<close> made before the timeout is set again,
  whatever other calls come between, passes that value as its HTTP timeout.
\<close>

theorem set_query_timeout_spec:
  "((\<exists>m. fst (set_query_timeout self t) = Inl (ValueError m)) = (\<not> positive_integer t))
   \<and> (\<exists>m. fst (set_query_timeout self (PInt 0)) = Inl (ValueError m))
   \<and> (\<exists>m. fst (set_query_timeout self (PInt (- 5))) = Inl (ValueError m))
   \<and> set_query_timeout self (PInt 30) = (Inr (), self\<lparr> query_timeout := PInt 30 \<rparr>)
   \<and> (positive_integer t \<and> list_all (\<lambda>c. \<not> assigns c) calls \<longrightarrow>
        (\<exists>r. snd (query e (fst (run e (snd (set_query_timeout self t), sent0) calls)) (PStr s) kwargs sent)
                = sent @ [Post r] \<and> post_timeout r = t))"
proof -
  have a: "(\<exists>m. fst (set_query_timeout self t) = Inl (ValueError m)) = (\<not> positive_integer t)"
    by (cases "positive_integer t") (simp_all add: set_query_timeout_ok set_query_timeout_fails)
  have b: "\<exists>m. fst (set_query_timeout self (PInt 0)) = Inl (ValueError m)"
    by (simp add: set_query_timeout_def)
  have c: "\<exists>m. fst (set_query_timeout self (PInt (- 5))) = Inl (ValueError m)"
    by (simp add: set_query_timeout_def)
  have d: "set_query_timeout self (PInt 30) = (Inr (), self\<lparr> query_timeout := PInt 30 \<rparr>)"
    by (simp add: set_query_timeout_def maxint_def)
  have f: "\<exists>r. snd (query e (fst (run e (snd (set_query_timeout self t), sent0) calls)) (PStr s) kwargs sent)
                = sent @ [Post r] \<and> post_timeout r = t"
    if "positive_integer t" "list_all (\<lambda>c. \<not> assigns c) calls"
    using that
    by (simp add: run_keeps_client set_query_timeout_ok snd_query snd_post_eq positive_integer_timeout)
  from a b c d f show ?thesis by blast
qed

theorem set_query_timeout_spec_witness:
  "positive_integer (PInt 30)
   \<and> list_all (\<lambda>c. \<not> assigns c) [Query (PStr ''m'') [], Feedback (PStr ''id1'') (PDict [])]
   \<and> (\<exists>r. snd (query (mock_env 200 ''{}'')
                  (fst (run (mock_env 200 ''{}'') (snd (set_query_timeout (mock_client (PInt 9)) (PInt 30)), [])
                         [Query (PStr ''m'') [], Feedback (PStr ''id1'') (PDict [])]))
                  (PStr ''m'') [] [])
             = [] @ [Post r] \<and> post_timeout r = PInt 30)"
proof -
  have p: "positive_integer (PInt 30)
      \<and> list_all (\<lambda>c. \<not> assigns c) [Query (PStr ''m'') [], Feedback (PStr ''id1'') (PDict [])]"
    by (simp add: maxint_def)
  with set_query_timeout_spec [of "mock_client (PInt 9)" "PInt 30"
      "[Query (PStr ''m'') [], Feedback (PStr ''id1'') (PDict [])]" "mock_env 200 ''{}''" "[]" "''m''" "[]" "[]"]
  show ?thesis by blast
qed

text \<open>
  C10. After every successful construction the query timeout is a positive integer
  (it is 10), it is one after every sequence of calls on the client, each call keeps it
  one, and a \<open>set_query_timeout\<close> call that raises leaves the client as it was.
\<close>

theorem query_timeout_invariant:
  "(fst (init e endpoint' api_key' verify' config_file sent) = Inr c \<longrightarrow>
      query_timeout c = PInt 10
      \<and> positive_integer (query_timeout (fst (run e (c, snd (init e endpoint' api_key' verify' config_file sent)) calls))))
   \<and> (positive_integer (query_timeout self) \<longrightarrow>
        positive_integer (query_timeout (fst (step e (self, sent) call))))
   \<and> (fst (set_query_timeout self t) = Inl x \<longrightarrow> snd (set_query_timeout self t) = self)"
proof -
  have a: "query_timeout c = PInt 10
      \<and> positive_integer (query_timeout (fst (run e (c, snd (init e endpoint' api_key' verify' config_file sent)) calls)))"
    if "fst (init e endpoint' api_key' verify' config_file sent) = Inr c"
  proof -
    from that have q: "query_timeout c = PInt 10" by (rule init_query_timeout)
    then have "positive_integer (query_timeout (fst (c, snd (init e endpoint' api_key' verify' config_file sent))))"
      by (simp add: maxint_def)
    then show ?thesis using q by (simp add: run_invariant del: fst_conv)
  qed
  have b: "fst (set_query_timeout self t) = Inl x \<longrightarrow> snd (set_query_timeout self t) = self"
    by (simp add: set_query_timeout_def)
  from a b step_invariant show ?thesis by blast
qed

theorem query_timeout_invariant_witness:
  "fst (init (mock_env 200 ''{}'') (Some ''http://svc'') (Some ''K'') None None [])
     = Inr (mock_client (PInt (- 1)))
   \<and> positive_integer (query_timeout (fst (run (mock_env 200 ''{}'')
         (mock_client (PInt (- 1)), snd (init (mock_env 200 ''{}'') (Some ''http://svc'') (Some ''K'') None None []))
         [SetQueryTimeout (PInt 0), Query (PStr ''m'') [], SetQueryTimeout (PInt 30)])))
   \<and> fst (set_query_timeout (mock_client (PInt 9)) (PInt 0))
        = Inl (ValueError ''\"timeout\" value has to be a positive integer in seconds.'')
   \<and> snd (set_query_timeout (mock_client (PInt 9)) (PInt 0)) = mock_client (PInt 9)"
proof -
  have h: "fst (init (mock_env 200 ''{}'') (Some ''http://svc'') (Some ''K'') None None [])
     = Inr (mock_client (PInt (- 1)))"
    by (simp add: init_def resolve_config_def ping_def detect_schema_version_def mock_env_def
          mock_loads_def mock_client_def Let_def)
  have g: "fst (set_query_timeout (mock_client (PInt 9)) (PInt 0))
        = Inl (ValueError ''\"timeout\" value has to be a positive integer in seconds.'')"
    by (simp add: set_query_timeout_def)
  show ?thesis
    using h g query_timeout_invariant [where e = "mock_env 200 ''{}''" and endpoint' = "Some ''http://svc''"
        and api_key' = "Some ''K''" and verify' = None and config_file = None and sent = "[]"
        and c = "mock_client (PInt (- 1))"
        and calls = "[SetQueryTimeout (PInt 0), Query (PStr ''m'') [], SetQueryTimeout (PInt 30)]"
        and self = "mock_client (PInt 9)" and t = "PInt 0"
        and x = "ValueError ''\"timeout\" value has to be a positive integer in seconds.''"]
    by blast
qed

subsection \<open>Construction\<close>

text \<open>
  C5. For every construction whose configuration resolves (from the arguments or from
  the file), construction succeeds after exactly one GET to the endpoint, whatever the
  ping does, with timeout 10. If the GET raises, or answers with a status other than 200,
  or with a body that \<open>json.loads\<close> rejects or that is not a JSON object, the cached
  schema version is -1; if it answers 200 with a JSON object, the cached schema version
  is that object's \<open>schema_version\<close> entry, and -1 when it has none.
\<close>

theorem init_ping:
  assumes "resolve_config e endpoint' api_key' verify' config_file = Inr (ep, k, v)"
  shows "\<exists>c. init e endpoint' api_key' verify' config_file sent = (Inr c, sent @ [Get ep v])
      \<and> endpoint c = ep \<and> api_key c = k \<and> should_verify_certificate c = v
      \<and> query_timeout c = PInt 10
      \<and> (\<forall>x. server e sent (Get ep v) = Inl x \<longrightarrow> schema_version c = PInt (- 1))
      \<and> (\<forall>r. server e sent (Get ep v) = Inr r \<and> status_code r \<noteq> 200 \<longrightarrow>
             schema_version c = PInt (- 1))
      \<and> (\<forall>r x. server e sent (Get ep v) = Inr r \<and> status_code r = 200
                 \<and> json_loads e (resp_text r) = Inl x \<longrightarrow> schema_version c = PInt (- 1))
      \<and> (\<forall>r d. server e sent (Get ep v) = Inr r \<and> status_code r = 200
                 \<and> json_loads e (resp_text r) = Inr (PDict d) \<longrightarrow>
             schema_version c = (case map_of d ''schema_version'' of Some n \<Rightarrow> n | None \<Rightarrow> PInt (- 1)))
      \<and> (\<forall>r j. server e sent (Get ep v) = Inr r \<and> status_code r = 200
                 \<and> json_loads e (resp_text r) = Inr j \<and> \<not> type_is_dict j \<longrightarrow>
             schema_version c = PInt (- 1))"
proof -
  let ?c = "\<lparr> endpoint = ep, api_key = k, should_verify_certificate = v, query_timeout = PInt 10,
               schema_version = detect_schema_version e (fst (ping e ep v sent)) \<rparr>"
  have i: "init e endpoint' api_key' verify' config_file sent = (Inr ?c, sent @ [Get ep v])"
    using assms by (rule init_valid)
  have a: "schema_version ?c = PInt (- 1)" if "server e sent (Get ep v) = Inl x" for x
    using that by (simp add: fst_ping detect_schema_version_def)
  have b: "schema_version ?c = PInt (- 1)"
    if "server e sent (Get ep v) = Inr r \<and> status_code r \<noteq> 200" for r
    using that by (simp add: fst_ping detect_schema_version_def)
  have c: "schema_version ?c = PInt (- 1)"
    if "server e sent (Get ep v) = Inr r \<and> status_code r = 200 \<and> json_loads e (resp_text r) = Inl x"
    for r x
    using that by (simp add: fst_ping detect_schema_version_def)
  have d: "schema_version ?c = (case map_of d ''schema_version'' of Some n \<Rightarrow> n | None \<Rightarrow> PInt (- 1))"
    if "server e sent (Get ep v) = Inr r \<and> status_code r = 200
          \<and> json_loads e (resp_text r) = Inr (PDict d)" for r d
    using that by (simp add: fst_ping detect_schema_version_def)
  have f: "schema_version ?c = PInt (- 1)"
    if "server e sent (Get ep v) = Inr r \<and> status_code r = 200
          \<and> json_loads e (resp_text r) = Inr j \<and> \<not> type_is_dict j" for r j
    using that by (cases j) (simp_all add: fst_ping detect_schema_version_def)
  have "endpoint ?c = ep \<and> api_key ?c = k \<and> should_verify_certificate ?c = v
      \<and> query_timeout ?c = PInt 10" by simp
  with i a b c d f show ?thesis by blast
qed


theorem init_ping_witness:
  "resolve_config (mock_env 200 ''{\"schema_version\": 5}'') (Some ''http://svc'') (Some ''K'') None None
     = Inr (''http://svc'', ''K'', False)
   \<and> (\<exists>c. init (mock_env 200 ''{\"schema_version\": 5}'') (Some ''http://svc'') (Some ''K'') None None []
            = (Inr c, [Get ''http://svc'' False])
          \<and> schema_version c = PInt 5)
   \<and> (\<exists>c. init down_env (Some ''http://svc'') (Some ''K'') None None []
            = (Inr c, [Get ''http://svc'' False])
          \<and> schema_version c = PInt (- 1))"
proof -
  have h: "resolve_config (mock_env 200 ''{\"schema_version\": 5}'') (Some ''http://svc'') (Some ''K'') None None
     = Inr (''http://svc'', ''K'', False)"
    by (simp add: resolve_config_def)
  have g: "resolve_config down_env (Some ''http://svc'') (Some ''K'') None None
     = Inr (''http://svc'', ''K'', False)"
    by (simp add: resolve_config_def)
  have s1: "server (mock_env 200 ''{\"schema_version\": 5}'') [] (Get ''http://svc'' False)
      = Inr \<lparr> status_code = 200, resp_text = ''{\"schema_version\": 5}'' \<rparr>"
    by (simp add: mock_env_def)
  have j1: "json_loads (mock_env 200 ''{\"schema_version\": 5}'') ''{\"schema_version\": 5}''
      = Inr (PDict [(''schema_version'', PInt 5)])"
    by (simp add: mock_env_def mock_loads_def)
  have s2: "server down_env [] (Get ''http://svc'' False) = Inl (LibraryError ''ConnectionError'' [])"
    by (simp add: down_env_def mock_env_def)
  from init_ping [OF h, of "[]"] obtain c where
    c1: "init (mock_env 200 ''{\"schema_version\": 5}'') (Some ''http://svc'') (Some ''K'') None None []
          = (Inr c, [] @ [Get ''http://svc'' False])"
    and c2: "\<forall>r d. server (mock_env 200 ''{\"schema_version\": 5}'') [] (Get ''http://svc'' False) = Inr r
               \<and> status_code r = 200
               \<and> json_loads (mock_env 200 ''{\"schema_version\": 5}'') (resp_text r) = Inr (PDict d) \<longrightarrow>
             schema_version c = (case map_of d ''schema_version'' of Some n \<Rightarrow> n | None \<Rightarrow> PInt (- 1))"
    by blast
  from c2 s1 j1 have "schema_version c = PInt 5" by simp
  with c1 have a: "\<exists>c. init (mock_env 200 ''{\"schema_version\": 5}'') (Some ''http://svc'') (Some ''K'') None None []
            = (Inr c, [Get ''http://svc'' False]) \<and> schema_version c = PInt 5"
    by simp
  from init_ping [OF g, of "[]"] obtain c' where
    d1: "init down_env (Some ''http://svc'') (Some ''K'') None None [] = (Inr c', [] @ [Get ''http://svc'' False])"
    and d2: "\<forall>x. server down_env [] (Get ''http://svc'' False) = Inl x \<longrightarrow> schema_version c' = PInt (- 1)"
    by blast
  from d2 s2 have "schema_version c' = PInt (- 1)" by simp
  with d1 have b: "\<exists>c. init down_env (Some ''http://svc'') (Some ''K'') None None []
            = (Inr c, [Get ''http://svc'' False]) \<and> schema_version c = PInt (- 1)"
    by simp
  from h a b show ?thesis by blast
qed

text \<open>
  C9. Construction raises ValueError when \<open>config_file\<close> is not supplied and \<open>endpoint\<close>
  or \<open>api_key\<close> is missing; with a \<open>config_file\<close> it raises RuntimeError when the path is
  not an existing file, and when the file is read but has no \<open>Service Info\<close> section
  (all three are the specification's ConfigurationError). In each case no client is
  produced and no request is sent.
\<close>

theorem init_configuration_errors:
  "(\<not> truthy_str config_file \<and> (\<not> truthy_str endpoint' \<or> \<not> truthy_str api_key') \<longrightarrow>
      (\<exists>m. init e endpoint' api_key' verify' config_file sent = (Inl (ValueError m), sent)))
   \<and> (f \<noteq> [] \<and> \<not> isfile e (abspath_expanduser e f) \<longrightarrow>
      (\<exists>m. init e endpoint' api_key' verify' (Some f) sent = (Inl (RuntimeError m), sent)))
   \<and> (f \<noteq> [] \<and> isfile e (abspath_expanduser e f)
        \<and> config_read e (abspath_expanduser e f) = Inr config
        \<and> SERVICE_INFO_SECTION_NAME \<notin> set (cfg_sections config) \<longrightarrow>
      (\<exists>m. init e endpoint' api_key' verify' (Some f) sent = (Inl (RuntimeError m), sent)))"
proof -
  have d: "direct_config endpoint' api_key' verify' = Inl missing_arguments"
    if "\<not> truthy_str endpoint' \<or> \<not> truthy_str api_key'"
    using that by (cases endpoint'; cases api_key') auto
  have a: "\<exists>m. init e endpoint' api_key' verify' config_file sent = (Inl (ValueError m), sent)"
    if "\<not> truthy_str config_file \<and> (\<not> truthy_str endpoint' \<or> \<not> truthy_str api_key')"
    using that d by (cases config_file) (auto simp: init_def resolve_config_def missing_arguments_def)
  have b: "\<exists>m. init e endpoint' api_key' verify' (Some f) sent = (Inl (RuntimeError m), sent)"
    if "f \<noteq> [] \<and> \<not> isfile e (abspath_expanduser e f)"
    using that by (simp add: init_def resolve_config_def read_config_def Let_def)
  have c: "\<exists>m. init e endpoint' api_key' verify' (Some f) sent = (Inl (RuntimeError m), sent)"
    if "f \<noteq> [] \<and> isfile e (abspath_expanduser e f)
        \<and> config_read e (abspath_expanduser e f) = Inr config
        \<and> SERVICE_INFO_SECTION_NAME \<notin> set (cfg_sections config)"
    using that by (simp add: init_def resolve_config_def read_config_def Let_def)
  from a b c show ?thesis by blast
qed

theorem init_configuration_errors_witness:
  "\<not> truthy_str None \<and> \<not> truthy_str None
   \<and> (\<exists>m. init down_env (Some ''http://svc'') None None None [] = (Inl (ValueError m), []))
   \<and> ''f.ini'' \<noteq> [] \<and> \<not> isfile down_env (abspath_expanduser down_env ''f.ini'')
   \<and> (\<exists>m. init down_env None None None (Some ''f.ini'') [] = (Inl (RuntimeError m), []))
   \<and> isfile (file_env (mock_config [''Other''])) (abspath_expanduser (file_env (mock_config [''Other''])) ''f.ini'')
   \<and> config_read (file_env (mock_config [''Other''])) (abspath_expanduser (file_env (mock_config [''Other''])) ''f.ini'')
        = Inr (mock_config [''Other''])
   \<and> SERVICE_INFO_SECTION_NAME \<notin> set (cfg_sections (mock_config [''Other'']))
   \<and> (\<exists>m. init (file_env (mock_config [''Other''])) None None None (Some ''f.ini'') [] = (Inl (RuntimeError m), []))"
proof -
  have p1: "\<not> truthy_str None \<and> (\<not> truthy_str (Some ''http://svc'') \<or> \<not> truthy_str None)" by simp
  have p2: "''f.ini'' \<noteq> [] \<and> \<not> isfile down_env (abspath_expanduser down_env ''f.ini'')"
    by (simp add: down_env_def mock_env_def)
  have p3: "''f.ini'' \<noteq> []
     \<and> isfile (file_env (mock_config [''Other''])) (abspath_expanduser (file_env (mock_config [''Other''])) ''f.ini'')
     \<and> config_read (file_env (mock_config [''Other''])) (abspath_expanduser (file_env (mock_config [''Other''])) ''f.ini'')
        = Inr (mock_config [''Other''])
     \<and> SERVICE_INFO_SECTION_NAME \<notin> set (cfg_sections (mock_config [''Other'']))"
    by (simp add: file_env_def mock_env_def mock_config_def SERVICE_INFO_SECTION_NAME_def)
  from p1 init_configuration_errors [where config_file = None and endpoint' = "Some ''http://svc''"
      and api_key' = None and e = down_env and verify' = None and sent = "[]"]
  have a: "\<exists>m. init down_env (Some ''http://svc'') None None None [] = (Inl (ValueError m), [])"
    by blast
  from p2 init_configuration_errors [where f = "''f.ini''" and e = down_env and endpoint' = None
      and api_key' = None and verify' = None and sent = "[]"]
  have b: "\<exists>m. init down_env None None None (Some ''f.ini'') [] = (Inl (RuntimeError m), [])"
    by blast
  from p3 init_configuration_errors [where f = "''f.ini''" and e = "file_env (mock_config [''Other''])"
      and endpoint' = None and api_key' = None and verify' = None and sent = "[]"
      and config = "mock_config [''Other'']"]
  have c: "\<exists>m. init (file_env (mock_config [''Other''])) None None None (Some ''f.ini'') []
             = (Inl (RuntimeError m), [])"
    by blast
  from p1 p2 p3 a b c show ?thesis by blast
qed

subsection \<open>What \<open>feedback\<close> returns\<close>

text \<open>
  C1, at a concrete input. Against a server answering 200 with the body
  \<open>{"ack": true}\<close>, \<open>feedback('id1', {'k': 'v'})\<close> returns the response object itself
  (status and text), not the parsed body; against a server answering 500 it returns the
  response object as well and raises nothing.
\<close>

theorem feedback_returns_response:
  "feedback (mock_env 200 ''{\"ack\": true}'') (mock_client (PInt 9)) (PStr ''id1'') (PDict [(''k'', PStr ''v'')]) []
     = (Inr \<lparr> status_code = 200, resp_text = ''{\"ack\": true}'' \<rparr>,
        [Post \<lparr> post_url = ''http://svc/feedback'',
                  post_data = [(''data'', PDict [(''k'', PStr ''v'')]), (''id'', PStr ''id1'')],
                  post_headers = [(''content-type'', ''application/json'')],
                  post_verify = False, post_timeout = PInt 10,
                  post_auth = (''api_key'', ''K'') \<rparr>])
   \<and> fst (feedback (mock_env 500 ''boom'') (mock_client (PInt 9)) (PStr ''id1'') (PDict [(''k'', PStr ''v'')]) [])
     = Inr \<lparr> status_code = 500, resp_text = ''boom'' \<rparr>"
  by (simp add: feedback_def post_def Let_def mock_env_def mock_client_def)

end
